theory Spec2Isabelle
  imports Main "HOL-Library.AList"
begin

section \<open>Python values that reach the remote array proxy\<close>

text \<open>
  The index expression handed to \<open>C2Array.__getitem__\<close> is an arbitrary Python object.
  The objects that the code of \<open>slice_to_string\<close> tells apart are modelled: \<open>None\<close>, an
  \<open>int\<close>, a \<open>bool\<close> (a subclass of \<open>int\<close>, so \<open>isinstance(True, int)\<close> holds), a \<open>str\<close>,
  \<open>Ellipsis\<close>, a \<open>slice\<close> whose three fields are \<open>None\<close> or an \<open>int\<close>, and a \<open>tuple\<close>.
\<close>

datatype pyobj =
    PyNone
  | PyInt int
  | PyBool bool
  | PyStr string
  | PyEllipsis
  | PySlice "int option" "int option" "int option"
  | PyTuple "pyobj list"

text \<open>
  A Python exception is its class, given as the list of class names from the raised class
  up its bases (the part of the method resolution order that an \<open>except\<close> clause looks at),
  and its message.
\<close>

datatype exc = Exc (exc_mro: "string list") (exc_msg: string)

definition isinstance :: "exc \<Rightarrow> string list \<Rightarrow> bool" where
  "isinstance e classes = list_ex (\<lambda>c. c \<in> set (exc_mro e)) classes"

definition IndexError :: "string \<Rightarrow> exc" where
  "IndexError msg = Exc [''IndexError'', ''LookupError'', ''Exception'', ''BaseException''] msg"

definition KeyError :: "string \<Rightarrow> exc" where
  "KeyError msg = Exc [''KeyError'', ''LookupError'', ''Exception'', ''BaseException''] msg"

definition TypeError :: "string \<Rightarrow> exc" where
  "TypeError msg = Exc [''TypeError'', ''Exception'', ''BaseException''] msg"

definition ValueError :: "string \<Rightarrow> exc" where
  "ValueError msg = Exc [''ValueError'', ''Exception'', ''BaseException''] msg"

definition RuntimeError :: "string \<Rightarrow> exc" where
  "RuntimeError msg = Exc [''RuntimeError'', ''Exception'', ''BaseException''] msg"

subsection \<open>\<open>str\<close> of an integer and of a boolean\<close>

definition digit_char :: "nat \<Rightarrow> char" where
  "digit_char d = ''0123456789'' ! d"

fun str_nat :: "nat \<Rightarrow> string" where
  "str_nat n = (if n < 10 then [digit_char n] else str_nat (n div 10) @ [digit_char (n mod 10)])"

declare str_nat.simps [simp del]

definition str_int :: "int \<Rightarrow> string" where
  "str_int i = (if i < 0 then CHR ''-'' # str_nat (nat (- i)) else str_nat (nat i))"

definition str_bool :: "bool \<Rightarrow> string" where
  "str_bool b = (if b then ''True'' else ''False'')"

subsection \<open>\<open>", ".join(parts)\<close>\<close>

fun join :: "string \<Rightarrow> string list \<Rightarrow> string" where
  "join sep [] = []"
| "join sep [x] = x"
| "join sep (x # y # ys) = x @ sep @ join sep (y # ys)"

section \<open>\<open>slice_to_string\<close>\<close>

text \<open>
  \<open>index.start or ''\<close> followed by the f-string formatting of the result: a bound that is
  \<open>None\<close> or the integer \<open>0\<close> is falsy and becomes the empty string, any other integer is
  formatted by \<open>str\<close>.
\<close>

definition bound_or_empty :: "int option \<Rightarrow> string" where
  "bound_or_empty b = (case b of None \<Rightarrow> [] | Some n \<Rightarrow> if n = 0 then [] else str_int n)"

text \<open>
  The loop \<open>for index in slice_\<close> with the accumulator \<open>slice_parts\<close>. An index that is
  neither an \<open>int\<close> nor a \<open>slice\<close> matches no branch and appends nothing.
\<close>

fun slice_parts_loop :: "string list \<Rightarrow> pyobj list \<Rightarrow> exc + string list" where
  "slice_parts_loop slice_parts [] = Inr slice_parts"
| "slice_parts_loop slice_parts (index # rest) =
     (case index of
        PyInt i \<Rightarrow> slice_parts_loop (slice_parts @ [str_int i]) rest
      | PyBool b \<Rightarrow> slice_parts_loop (slice_parts @ [str_bool b]) rest
      | PySlice start stop step \<Rightarrow>
          (if step \<noteq> Some 1 \<and> step \<noteq> None
           then Inl (IndexError ''Only step=1 is supported'')
           else slice_parts_loop
                  (slice_parts @ [bound_or_empty start @ '':'' @ bound_or_empty stop]) rest)
      | _ \<Rightarrow> slice_parts_loop slice_parts rest)"

text \<open>\<open>if not isinstance(slice_, tuple): slice_ = (slice_,)\<close>\<close>

definition as_tuple :: "pyobj \<Rightarrow> pyobj list" where
  "as_tuple sl = (case sl of PyTuple items \<Rightarrow> items | _ \<Rightarrow> [sl])"

definition slice_to_string :: "pyobj \<Rightarrow> exc + string" where
  "slice_to_string sl =
     (if sl = PyNone \<or> sl = PyTuple [] \<or> sl = PySlice None None None
      then Inr []
      else
        (case slice_parts_loop [] (as_tuple sl) of
           Inl e \<Rightarrow> Inl e
         | Inr slice_parts \<Rightarrow> Inr (join '', '' slice_parts)))"

section \<open>The HTTP transport\<close>

text \<open>
  \<open>httpx\<close> is an external library. A call \<open>httpx.get(url, params, headers, timeout)\<close> is
  a request value; the server is a parameter that answers a request, given the requests
  issued before it, with a response or with the exception \<open>httpx.get\<close> raises. Every call
  is appended to a log of issued requests, threaded through the functions that can reach
  the network. Dictionaries of strings are association lists with distinct keys.
\<close>

datatype json =
    JNull
  | JBool bool
  | JInt int
  | JStr string
  | JArr "json list"
  | JObj "(string \<times> json) list"

record request =
  req_url :: string
  req_params :: "(string \<times> string) list option"
  req_headers :: "(string \<times> string) list option"
  req_timeout :: nat

record response =
  status_code :: nat
  content :: string
  json_result :: "exc + json"

type_synonym transport = "request list \<Rightarrow> request \<Rightarrow> exc + response"

text \<open>
  \<open>response.raise_for_status()\<close> of \<open>httpx\<close>: returns the response when the status is
  2xx and raises \<open>HTTPStatusError\<close> otherwise. The library's message text is abbreviated
  to the status code.
\<close>

definition is_success :: "response \<Rightarrow> bool" where
  "is_success r = (200 \<le> status_code r \<and> status_code r < 300)"

definition HTTPStatusError :: "response \<Rightarrow> exc" where
  "HTTPStatusError r =
     Exc [''HTTPStatusError'', ''HTTPError'', ''Exception'', ''BaseException'']
         (str_nat (status_code r))"

definition raise_for_status :: "response \<Rightarrow> exc + response" where
  "raise_for_status r = (if is_success r then Inr r else Inl (HTTPStatusError r))"

text \<open>Truthiness of \<open>auth_cookie\<close> in \<open>if auth_cookie:\<close> (\<open>None\<close> or a \<open>str\<close>).\<close>

definition truthy :: "string option \<Rightarrow> bool" where
  "truthy c = (case c of None \<Rightarrow> False | Some s \<Rightarrow> s \<noteq> [])"

text \<open>\<open>_xget\<close> (an Isabelle name cannot start with an underscore).\<close>

definition xget ::
  "transport \<Rightarrow> string \<Rightarrow> (string \<times> string) list option \<Rightarrow> (string \<times> string) list option \<Rightarrow>
   nat \<Rightarrow> string option \<Rightarrow> request list \<Rightarrow> (exc + response) \<times> request list" where
  "xget httpx_get url params headers timeout auth_cookie log =
     (let headers' =
            (if truthy auth_cookie
             then Some (AList.update ''Cookie'' (the auth_cookie)
                          (case headers of None \<Rightarrow> [] | Some hs \<Rightarrow> hs))
             else headers);
          req = \<lparr>req_url = url, req_params = params, req_headers = headers',
                  req_timeout = timeout\<rparr>
      in (case httpx_get log req of
            Inl e \<Rightarrow> Inl e
          | Inr response \<Rightarrow> raise_for_status response,
          log @ [req]))"

text \<open>\<open>get\<close>, with \<open>model=None\<close> as at its only call site.\<close>

definition get ::
  "transport \<Rightarrow> string \<Rightarrow> (string \<times> string) list option \<Rightarrow> (string \<times> string) list option \<Rightarrow>
   nat \<Rightarrow> string option \<Rightarrow> request list \<Rightarrow> (exc + json) \<times> request list" where
  "get httpx_get url params headers timeout auth_cookie log =
     (case xget httpx_get url params headers timeout auth_cookie log of
        (Inl e, log') \<Rightarrow> (Inl e, log')
      | (Inr response, log') \<Rightarrow> (json_result response, log'))"

section \<open>The compression engine\<close>

text \<open>
  \<open>blosc2.decompress2\<close>, \<open>blosc2.ndarray_from_cframe\<close> and \<open>NDArray.__getitem__\<close> are
  not among the sources: they are parameters. An array, compressed (\<open>NDArray\<close>) or not
  (\<open>numpy.ndarray\<close>), is its shape and its items in row-major order.
\<close>

record ndarray =
  nd_shape :: "nat list"
  nd_items :: "int list"

definition ndim :: "ndarray \<Rightarrow> nat" where
  "ndim a = length (nd_shape a)"

record engine =
  decompress2 :: "string \<Rightarrow> exc + string"
  ndarray_from_cframe :: "string \<Rightarrow> exc + ndarray"
  NDArray_getitem :: "ndarray \<Rightarrow> pyobj \<Rightarrow> exc + ndarray"

datatype data = Bytes string | Array ndarray

section \<open>\<open>fetch_data\<close>\<close>

text \<open>
  The \<open>try\<close> statement of \<open>fetch_data\<close>: \<open>except (ValueError, RuntimeError)\<close> catches an
  exception of these classes or of a subclass; any other exception of \<open>decompress2\<close>
  propagates. In the handler \<open>data[:]\<close> is indexing with \<open>slice(None, None, None)\<close> and
  \<open>data[()]\<close> is indexing with the empty tuple.
\<close>

definition fetch_data_try :: "engine \<Rightarrow> string \<Rightarrow> exc + data" where
  "fetch_data_try eng raw =
     (case decompress2 eng raw of
        Inr bytes \<Rightarrow> Inr (Bytes bytes)
      | Inl e \<Rightarrow>
          if isinstance e [''ValueError'', ''RuntimeError'']
          then (case ndarray_from_cframe eng raw of
                  Inl e' \<Rightarrow> Inl e'
                | Inr arr \<Rightarrow>
                    (case (if ndim arr = 1
                           then NDArray_getitem eng arr (PySlice None None None)
                           else NDArray_getitem eng arr (PyTuple [])) of
                       Inl e'' \<Rightarrow> Inl e''
                     | Inr out \<Rightarrow> Inr (Array out)))
          else Inl e)"

definition fetch_data ::
  "transport \<Rightarrow> engine \<Rightarrow> string \<Rightarrow> string \<Rightarrow> (string \<times> string) list option \<Rightarrow>
   string option \<Rightarrow> request list \<Rightarrow> (exc + data) \<times> request list" where
  "fetch_data httpx_get eng path sub_url params auth_cookie log =
     (case xget httpx_get (sub_url @ ''api/fetch/'' @ path) params None 15 auth_cookie log of
        (Inl e, log') \<Rightarrow> (Inl e, log')
      | (Inr response, log') \<Rightarrow> (fetch_data_try eng (content response), log'))"

section \<open>\<open>C2Array\<close>\<close>

record C2Array =
  path :: string
  sub_url :: string
  auth_cookie :: "string option"
  meta :: json

text \<open>
  A method takes the object and the request log and returns its result (or the exception
  it raises), the object after the call and the log after the call.
\<close>

type_synonym 'a meth = "C2Array \<Rightarrow> request list \<Rightarrow> (exc + 'a) \<times> C2Array \<times> request list"

text \<open>\<open>C2Array.__init__\<close>: the object exists for the caller only when no exception is raised.\<close>

definition C2Array_init ::
  "transport \<Rightarrow> string \<Rightarrow> string \<Rightarrow> string option \<Rightarrow> request list \<Rightarrow>
   (exc + C2Array) \<times> request list" where
  "C2Array_init httpx_get p u c log =
     (case get httpx_get (u @ ''api/info/'' @ p) None None 15 c log of
        (Inl e, log') \<Rightarrow> (Inl e, log')
      | (Inr j, log') \<Rightarrow>
          (Inr \<lparr>path = p, sub_url = u, auth_cookie = c, meta = j\<rparr>, log'))"

text \<open>\<open>C2Array.__getitem__\<close>\<close>

definition C2Array_getitem :: "transport \<Rightarrow> engine \<Rightarrow> pyobj \<Rightarrow> data meth" where
  "C2Array_getitem httpx_get eng sl self log =
     (case slice_to_string sl of
        Inl e \<Rightarrow> (Inl e, self, log)
      | Inr s \<Rightarrow>
          (case fetch_data httpx_get eng (path self) (sub_url self) (Some [(''slice_'', s)])
                  (auth_cookie self) log of
             (r, log') \<Rightarrow> (r, self, log')))"

text \<open>
  \<open>self.meta[key]\<close> on the value that \<open>response.json()\<close> returned, and \<open>tuple(...)\<close> of
  a JSON value.
\<close>

definition meta_getitem :: "json \<Rightarrow> string \<Rightarrow> exc + json" where
  "meta_getitem m key =
     (case m of
        JObj kvs \<Rightarrow> (case map_of kvs key of None \<Rightarrow> Inl (KeyError key) | Some v \<Rightarrow> Inr v)
      | JArr _ \<Rightarrow> Inl (TypeError ''list indices must be integers or slices, not str'')
      | JStr _ \<Rightarrow> Inl (TypeError ''string indices must be integers'')
      | _ \<Rightarrow> Inl (TypeError ''object is not subscriptable''))"

definition py_tuple :: "json \<Rightarrow> exc + json list" where
  "py_tuple v =
     (case v of
        JArr xs \<Rightarrow> Inr xs
      | JStr s \<Rightarrow> Inr (map (\<lambda>c. JStr [c]) s)
      | JObj kvs \<Rightarrow> Inr (map (\<lambda>kv. JStr (fst kv)) kvs)
      | _ \<Rightarrow> Inl (TypeError ''object is not iterable''))"

definition meta_tuple :: "string \<Rightarrow> json list meth" where
  "meta_tuple key self log =
     ((case meta_getitem (meta self) key of Inl e \<Rightarrow> Inl e | Inr v \<Rightarrow> py_tuple v), self, log)"

definition C2Array_shape :: "json list meth" where
  "C2Array_shape = meta_tuple ''shape''"

definition C2Array_chunks :: "json list meth" where
  "C2Array_chunks = meta_tuple ''chunks''"

definition C2Array_blocks :: "json list meth" where
  "C2Array_blocks = meta_tuple ''blocks''"

definition C2Array_dtype :: "json meth" where
  "C2Array_dtype self log = (meta_getitem (meta self) ''dtype'', self, log)"

definition C2Array_ext_shape :: "json list meth" where
  "C2Array_ext_shape = meta_tuple ''ext_shape''"

section \<open>Predicates on index expressions\<close>

text \<open>
  A range term whose step is set and not equal to one; the strings one term contributes to
  \<open>slice_parts\<close>; and the terms of the documented parameter type (an \<open>int\<close>, or a \<open>slice\<close>
  whose step is \<open>None\<close> or \<open>1\<close>).
\<close>

definition nonunit_step :: "pyobj \<Rightarrow> bool" where
  "nonunit_step t = (case t of PySlice _ _ (Some k) \<Rightarrow> k \<noteq> 1 | _ \<Rightarrow> False)"

definition rendered :: "pyobj \<Rightarrow> string list" where
  "rendered t =
     (case t of
        PyInt i \<Rightarrow> [str_int i]
      | PyBool b \<Rightarrow> [str_bool b]
      | PySlice start stop _ \<Rightarrow> [bound_or_empty start @ '':'' @ bound_or_empty stop]
      | _ \<Rightarrow> [])"

definition valid_term :: "pyobj \<Rightarrow> bool" where
  "valid_term t =
     (case t of PyInt _ \<Rightarrow> True | PySlice _ _ step \<Rightarrow> step = None \<or> step = Some 1 | _ \<Rightarrow> False)"

definition nonzero_bounds :: "pyobj \<Rightarrow> bool" where
  "nonzero_bounds t =
     (case t of PySlice start stop _ \<Rightarrow> start \<noteq> Some 0 \<and> stop \<noteq> Some 0 | _ \<Rightarrow> True)"

section \<open>The wire format as the specification words it\<close>

text \<open>
  The rendering of a term in the specification's words: an integer term is its decimal
  string, a range term is \<open>start:stop\<close> where an unset bound is the empty string.
\<close>

definition spec_bound :: "int option \<Rightarrow> string" where
  "spec_bound b = (case b of None \<Rightarrow> [] | Some n \<Rightarrow> str_int n)"

definition spec_term :: "pyobj \<Rightarrow> string" where
  "spec_term t =
     (case t of
        PyInt i \<Rightarrow> str_int i
      | PySlice start stop _ \<Rightarrow> spec_bound start @ '':'' @ spec_bound stop
      | _ \<Rightarrow> [])"

definition spec_encode :: "pyobj \<Rightarrow> string" where
  "spec_encode e = join '', '' (map spec_term (as_tuple e))"

text \<open>
  The wire grammar \<open>"" | term (", " term)*\<close> with
  \<open>term := INTEGER | (INTEGER? ":" INTEGER?)\<close>, as a recogniser. An \<open>INTEGER\<close> is a
  non-empty run of decimal digits with an optional leading minus sign.
\<close>

definition is_digit :: "char \<Rightarrow> bool" where
  "is_digit c = (c \<in> set ''0123456789'')"

definition is_INTEGER :: "string \<Rightarrow> bool" where
  "is_INTEGER s =
     (case s of
        [] \<Rightarrow> False
      | c # cs \<Rightarrow> if c = CHR ''-'' then cs \<noteq> [] \<and> list_all is_digit cs
                  else list_all is_digit (c # cs))"

definition wire_term :: "string \<Rightarrow> bool" where
  "wire_term s =
     (is_INTEGER s \<or>
      (let a = takeWhile (\<lambda>c. c \<noteq> CHR '':'') s;
           r = dropWhile (\<lambda>c. c \<noteq> CHR '':'') s
       in r \<noteq> [] \<and> (a = [] \<or> is_INTEGER a) \<and> (tl r = [] \<or> is_INTEGER (tl r))))"

fun split_comma_space :: "string \<Rightarrow> string list" where
  "split_comma_space [] = [[]]"
| "split_comma_space [c] = [[c]]"
| "split_comma_space (c # d # cs) =
     (if c = CHR '','' \<and> d = CHR '' '' then [] # split_comma_space cs
      else (case split_comma_space (d # cs) of
              [] \<Rightarrow> [[c]]
            | t # ts \<Rightarrow> (c # t) # ts))"

definition wire_grammar :: "string \<Rightarrow> bool" where
  "wire_grammar s = (s = [] \<or> list_all wire_term (split_comma_space s))"

section \<open>The requests the specification describes\<close>

text \<open>
  The fetch request \<open>GET {base_url}api/fetch/{path}?slice_=<wire string>\<close> and the metadata
  request \<open>GET {base_url}api/info/{path}\<close>, each with the cookie header when the handle
  has a non-empty cookie, as the specification words them.
\<close>

definition fetch_request :: "C2Array \<Rightarrow> string \<Rightarrow> request" where
  "fetch_request self s =
     \<lparr>req_url = sub_url self @ ''api/fetch/'' @ path self,
      req_params = Some [(''slice_'', s)],
      req_headers = (case auth_cookie self of
                       None \<Rightarrow> None
                     | Some c \<Rightarrow> if c = [] then None else Some [(''Cookie'', c)]),
      req_timeout = 15\<rparr>"

definition info_request :: "string \<Rightarrow> string \<Rightarrow> string option \<Rightarrow> request" where
  "info_request p u c =
     \<lparr>req_url = u @ ''api/info/'' @ p,
      req_params = None,
      req_headers = (case c of
                       None \<Rightarrow> None
                     | Some c' \<Rightarrow> if c' = [] then None else Some [(''Cookie'', c')]),
      req_timeout = 15\<rparr>"

section \<open>A stub server and a stub engine\<close>

text \<open>
  Concrete collaborators on which the theorems below are instantiated: a server that
  answers every request with one fixed response, a one-dimensional array of the integers
  \<open>0..9\<close>, basic slicing of a one-dimensional array with unit step, and an engine for which
  no payload is a compressed chunk and only the payload \<open>cframe\<close> is a container.
\<close>

definition stub_server :: "nat \<Rightarrow> string \<Rightarrow> exc + json \<Rightarrow> transport" where
  "stub_server status body j =
     (\<lambda>log req. Inr \<lparr>status_code = status, content = body, json_result = j\<rparr>)"

definition stub_array :: ndarray where
  "stub_array = \<lparr>nd_shape = [10], nd_items = [0, 1, 2, 3, 4, 5, 6, 7, 8, 9]\<rparr>"

definition stub_getitem :: "ndarray \<Rightarrow> pyobj \<Rightarrow> exc + ndarray" where
  "stub_getitem a key =
     (case key of
        PyTuple [] \<Rightarrow> Inr a
      | PySlice start stop None \<Rightarrow>
          (let n = int (length (nd_items a));
               lo = (case start of None \<Rightarrow> 0 | Some i \<Rightarrow> max 0 (min n i));
               hi = (case stop of None \<Rightarrow> n | Some i \<Rightarrow> max 0 (min n i));
               items = take (nat (hi - lo)) (drop (nat lo) (nd_items a))
           in Inr \<lparr>nd_shape = [length items], nd_items = items\<rparr>)
      | _ \<Rightarrow> Inl (IndexError ''unsupported key''))"

definition stub_engine :: engine where
  "stub_engine =
     \<lparr>decompress2 = (\<lambda>raw. Inl (ValueError ''not a compressed chunk'')),
      ndarray_from_cframe =
        (\<lambda>raw. if raw = ''cframe'' then Inr stub_array
               else Inl (RuntimeError ''not a cframe'')),
      NDArray_getitem = stub_getitem\<rparr>"

definition stub_handle :: C2Array where
  "stub_handle =
     \<lparr>path = ''root/a.b2nd'', sub_url = ''http://host/'', auth_cookie = Some ''k=v'',
      meta = JObj [(''shape'', JArr [JInt 10])]\<rparr>"

definition ex_expr :: pyobj where
  "ex_expr = PyTuple [PyInt 12, PySlice (Some 3) None None, PySlice None (Some (- 5)) (Some 1)]"


section \<open>Properties of the encoder\<close>

lemma digit_char_is_digit: "d < 10 \<Longrightarrow> is_digit (digit_char d)"
proof -
  assume "d < 10"
  then have "d \<in> {0,1,2,3,4,5,6,7,8,9}" by auto
  then show ?thesis
    by (auto simp: is_digit_def digit_char_def)
qed

lemma str_nat_digits: "list_all is_digit (str_nat n)"
proof (induction n rule: str_nat.induct)
  case (1 n)
  show ?case
  proof (cases "n < 10")
    case True
    then show ?thesis by (subst str_nat.simps) (simp add: digit_char_is_digit)
  next
    case False
    with 1 show ?thesis by (subst str_nat.simps) (simp add: digit_char_is_digit)
  qed
qed

lemma str_nat_nonempty: "str_nat n \<noteq> []"
  by (subst str_nat.simps) simp

lemma is_digit_not_minus: "is_digit c \<Longrightarrow> c \<noteq> CHR ''-''"
  by (auto simp: is_digit_def)

lemma is_INTEGER_str_int: "is_INTEGER (str_int i)"
proof (cases "i < 0")
  case True
  then show ?thesis
    by (simp add: str_int_def is_INTEGER_def str_nat_nonempty str_nat_digits)
next
  case False
  obtain c cs where cs: "str_nat (nat i) = c # cs"
    using str_nat_nonempty [of "nat i"] by (cases "str_nat (nat i)") auto
  have all: "list_all is_digit (c # cs)"
    using str_nat_digits [of "nat i"] cs by simp
  then have "c \<noteq> CHR ''-''" by (simp add: is_digit_not_minus)
  with False cs all show ?thesis
    by (simp add: str_int_def is_INTEGER_def)
qed


lemma takeWhile_colon: "CHR '':'' \<notin> set a \<Longrightarrow> takeWhile (\<lambda>c. c \<noteq> CHR '':'') (a @ CHR '':'' # b) = a"
  by (induction a) auto

lemma dropWhile_colon: "CHR '':'' \<notin> set a \<Longrightarrow> dropWhile (\<lambda>c. c \<noteq> CHR '':'') (a @ CHR '':'' # b) = CHR '':'' # b"
  by (induction a) auto

lemma is_digit_cases: "is_digit c \<Longrightarrow> c \<noteq> CHR '':'' \<and> c \<noteq> CHR '','' \<and> c \<noteq> CHR ''-''"
  by (auto simp: is_digit_def)

lemma str_int_chars: "c \<in> set (str_int i) \<Longrightarrow> c \<noteq> CHR '':'' \<and> c \<noteq> CHR '',''"
  using str_nat_digits [of "nat i"] str_nat_digits [of "nat (- i)"]
  by (auto simp: str_int_def list_all_iff dest: is_digit_cases split: if_splits)

lemma bound_or_empty_chars: "c \<in> set (bound_or_empty b) \<Longrightarrow> c \<noteq> CHR '':'' \<and> c \<noteq> CHR '',''"
  by (auto simp: bound_or_empty_def dest: str_int_chars split: option.splits if_splits)

lemma bound_or_empty_INTEGER: "bound_or_empty b = [] \<or> is_INTEGER (bound_or_empty b)"
  by (simp add: bound_or_empty_def is_INTEGER_str_int split: option.splits)

lemma wire_term_int: "wire_term (str_int i)"
  by (simp add: wire_term_def is_INTEGER_str_int)

lemma wire_term_range: "wire_term (bound_or_empty a @ '':'' @ bound_or_empty b)"
proof -
  have na: "CHR '':'' \<notin> set (bound_or_empty a)"
    using bound_or_empty_chars by blast
  show ?thesis
    using bound_or_empty_INTEGER [of a] bound_or_empty_INTEGER [of b]
    by (simp add: wire_term_def takeWhile_colon [OF na] dropWhile_colon [OF na])
qed

lemma split_no_comma: "CHR '','' \<notin> set t \<Longrightarrow> split_comma_space t = [t]"
  by (induction t rule: split_comma_space.induct) auto

lemma split_append: "CHR '','' \<notin> set t \<Longrightarrow> split_comma_space (t @ '', '' @ r) = t # split_comma_space r"
proof (induction t)
  case Nil
  then show ?case by simp
next
  case (Cons c t)
  then have c: "c \<noteq> CHR '',''" and t: "CHR '','' \<notin> set t" by auto
  obtain d ds where ds: "t @ '', '' @ r = d # ds" by (cases "t @ '', '' @ r") auto
  have "split_comma_space (c # d # ds) = (c # t) # split_comma_space r"
    using c Cons.IH [OF t] ds by simp
  with ds show ?case by simp
qed

lemma split_join: "ts \<noteq> [] \<Longrightarrow> \<forall>t \<in> set ts. CHR '','' \<notin> set t \<Longrightarrow> split_comma_space (join '', '' ts) = ts"
proof (induction ts)
  case Nil
  then show ?case by simp
next
  case (Cons x ts)
  show ?case
  proof (cases ts)
    case Nil
    with Cons.prems show ?thesis by (simp add: split_no_comma)
  next
    case (Cons y ys)
    have x: "CHR '','' \<notin> set x" using Cons.prems by simp
    have "split_comma_space (join '', '' ts) = ts"
      using Cons.IH Cons.prems Cons by simp
    with Cons show ?thesis
      using split_append [OF x, of "join '', '' (y # ys)"] by simp
  qed
qed

lemma nonunit_step_simps:
  "nonunit_step PyNone = False"
  "nonunit_step (PyInt i) = False"
  "nonunit_step (PyBool b) = False"
  "nonunit_step (PyStr s) = False"
  "nonunit_step PyEllipsis = False"
  "nonunit_step (PyTuple xs) = False"
  "nonunit_step (PySlice start stop step) = (step \<noteq> Some 1 \<and> step \<noteq> None)"
  by (auto simp: nonunit_step_def split: option.splits)

lemma rendered_simps:
  "rendered PyNone = []"
  "rendered (PyInt i) = [str_int i]"
  "rendered (PyBool b) = [str_bool b]"
  "rendered (PyStr s) = []"
  "rendered PyEllipsis = []"
  "rendered (PyTuple xs) = []"
  "rendered (PySlice start stop step) = [bound_or_empty start @ '':'' @ bound_or_empty stop]"
  by (simp_all add: rendered_def)

lemma slice_parts_loop_eq:
  "slice_parts_loop acc ts =
     (if list_ex nonunit_step ts then Inl (IndexError ''Only step=1 is supported'')
      else Inr (acc @ concat (map rendered ts)))"
proof (induction ts arbitrary: acc)
  case Nil
  then show ?case by simp
next
  case (Cons t ts)
  show ?case
    by (cases t) (simp_all add: Cons.IH nonunit_step_simps rendered_simps)
qed

lemma not_select_everything_if_nonunit:
  "list_ex nonunit_step (as_tuple sl) \<Longrightarrow>
   sl \<noteq> PyNone \<and> sl \<noteq> PyTuple [] \<and> sl \<noteq> PySlice None None None"
  by (auto simp: as_tuple_def nonunit_step_simps)

lemma slice_to_string_raises_iff:
  "(\<exists>e. slice_to_string sl = Inl e) \<longleftrightarrow> list_ex nonunit_step (as_tuple sl)"
  using not_select_everything_if_nonunit [of sl]
  by (auto simp: slice_to_string_def slice_parts_loop_eq)

lemma slice_to_string_raises:
  "list_ex nonunit_step (as_tuple sl) \<Longrightarrow>
   slice_to_string sl = Inl (IndexError ''Only step=1 is supported'')"
  using not_select_everything_if_nonunit [of sl]
  by (auto simp: slice_to_string_def slice_parts_loop_eq)

lemma valid_rendered:
  "valid_term t \<Longrightarrow> \<exists>s. rendered t = [s] \<and> wire_term s \<and> CHR '','' \<notin> set s"
proof (cases t)
  case (PyInt i)
  then show ?thesis
    using str_int_chars [of "CHR '',''" i] by (auto simp: rendered_simps wire_term_int)
next
  case (PySlice a b st)
  have "CHR '','' \<notin> set (bound_or_empty a @ '':'' @ bound_or_empty b)"
    using bound_or_empty_chars [of "CHR '',''"] by auto
  with PySlice show ?thesis
    using wire_term_range [of a b] by (simp add: rendered_simps)
qed (simp_all add: valid_term_def)

lemma valid_not_nonunit: "valid_term t \<Longrightarrow> \<not> nonunit_step t"
  by (cases t) (auto simp: valid_term_def nonunit_step_simps)

lemma valid_concat_rendered:
  "list_all valid_term ts \<Longrightarrow>
   list_all wire_term (concat (map rendered ts)) \<and>
   (\<forall>s \<in> set (concat (map rendered ts)). CHR '','' \<notin> set s) \<and>
   length (concat (map rendered ts)) = length ts"
proof (induction ts)
  case Nil
  then show ?case by simp
next
  case (Cons t ts)
  then obtain s where "rendered t = [s]" "wire_term s" "CHR '','' \<notin> set s"
    using valid_rendered [of t] by auto
  with Cons show ?case by simp
qed

lemma valid_wire_grammar:
  assumes "list_all valid_term (as_tuple sl)"
  shows "\<exists>s. slice_to_string sl = Inr s \<and> wire_grammar s"
proof -
  let ?ps = "concat (map rendered (as_tuple sl))"
  have nb: "\<not> list_ex nonunit_step (as_tuple sl)"
    using assms valid_not_nonunit by (auto simp: list_all_iff list_ex_iff)
  have ps: "list_all wire_term ?ps" "\<forall>s \<in> set ?ps. CHR '','' \<notin> set s"
    "length ?ps = length (as_tuple sl)"
    using valid_concat_rendered [OF assms] by auto
  show ?thesis
  proof (cases "sl = PyNone \<or> sl = PyTuple [] \<or> sl = PySlice None None None")
    case True
    then show ?thesis by (auto simp: slice_to_string_def wire_grammar_def)
  next
    case False
    then have "as_tuple sl \<noteq> []" by (cases sl) (auto simp: as_tuple_def)
    then have "length ?ps \<noteq> 0" using ps(3) by simp
    then have ne: "?ps \<noteq> []" by (simp only: length_0_conv not_False_eq_True)
    have "slice_to_string sl = Inr (join '', '' ?ps)"
      using False nb by (simp add: slice_to_string_def slice_parts_loop_eq)
    moreover have "wire_grammar (join '', '' ?ps)"
      using split_join [OF ne ps(2)] ps(1) by (simp add: wire_grammar_def)
    ultimately show ?thesis by simp
  qed
qed

lemma rendered_spec_term:
  "valid_term t \<Longrightarrow> nonzero_bounds t \<Longrightarrow> rendered t = [spec_term t]"
  by (cases t)
     (auto simp: valid_term_def nonzero_bounds_def rendered_simps spec_term_def spec_bound_def
        bound_or_empty_def split: option.splits)

lemma concat_rendered_spec:
  "list_all valid_term ts \<Longrightarrow> list_all nonzero_bounds ts \<Longrightarrow>
   concat (map rendered ts) = map spec_term ts"
  by (induction ts) (simp_all add: rendered_spec_term)

lemma valid_spec_encode:
  assumes "list_all valid_term (as_tuple sl)" "list_all nonzero_bounds (as_tuple sl)"
    "sl \<noteq> PySlice None None None"
  shows "slice_to_string sl = Inr (spec_encode sl)"
proof -
  have nb: "\<not> list_ex nonunit_step (as_tuple sl)"
    using assms(1) valid_not_nonunit by (auto simp: list_all_iff list_ex_iff)
  have "sl \<noteq> PyNone" using assms(1) by (auto simp: as_tuple_def valid_term_def)
  then show ?thesis
    using assms nb concat_rendered_spec [OF assms(1,2)]
    by (auto simp: slice_to_string_def slice_parts_loop_eq spec_encode_def as_tuple_def)
qed

section \<open>Properties of the requests\<close>

lemma xget_eq:
  "xget tr u ps None t c log =
     (let req = \<lparr>req_url = u, req_params = ps,
                 req_headers = (case c of None \<Rightarrow> None
                                | Some c' \<Rightarrow> if c' = [] then None else Some [(''Cookie'', c')]),
                 req_timeout = t\<rparr>
      in ((case tr log req of Inl e \<Rightarrow> Inl e | Inr r \<Rightarrow> raise_for_status r), log @ [req]))"
  by (cases c) (simp_all add: xget_def truthy_def Let_def)

lemma getitem_encoded:
  assumes "slice_to_string sl = Inr s"
  shows "C2Array_getitem tr eng sl self log =
     ((case tr log (fetch_request self s) of
         Inl e \<Rightarrow> Inl e
       | Inr r \<Rightarrow> if is_success r then fetch_data_try eng (content r)
                  else Inl (HTTPStatusError r)),
      self, log @ [fetch_request self s])"
  using assms
  by (simp add: C2Array_getitem_def fetch_data_def xget_eq fetch_request_def Let_def
      raise_for_status_def split: sum.splits)

lemma getitem_handle: "fst (snd (C2Array_getitem tr eng sl self log)) = self"
  by (simp add: C2Array_getitem_def split: sum.splits prod.splits)

lemma init_success:
  assumes "tr log (info_request p u c) = Inr r" "is_success r" "json_result r = Inr j"
  shows "C2Array_init tr p u c log =
           (Inr \<lparr>path = p, sub_url = u, auth_cookie = c, meta = j\<rparr>,
            log @ [info_request p u c])"
  using assms
  by (simp add: C2Array_init_def get_def xget_eq info_request_def Let_def raise_for_status_def)

lemma meta_tuple_missing:
  "map_of kvs key = None \<Longrightarrow>
   fst (meta_tuple key \<lparr>path = p, sub_url = u, auth_cookie = c, meta = JObj kvs\<rparr> log) =
     Inl (KeyError key)"
  by (simp add: meta_tuple_def meta_getitem_def)

section \<open>The claims\<close>

text \<open>
  The error names of the specification stand for the exceptions of the code:
  \<open>UnsupportedIndexError\<close> is the \<open>IndexError\<close> that \<open>slice_to_string\<close> raises, and
  \<open>FetchError\<close> is the \<open>HTTPStatusError\<close> of the transport.
\<close>

text \<open>
  Claim C1, as amended. When the payload is not a compressed chunk (\<open>decompress2\<close> raises
  \<open>ValueError\<close> or \<open>RuntimeError\<close>) and \<open>ndarray_from_cframe\<close> decodes it as a container,
  the result is the whole decoded array, read with \<open>[:]\<close> when it is one-dimensional and
  with \<open>[()]\<close> otherwise. The requested index expression is not applied to the container.
\<close>

theorem fallback_materialises_whole_container:
  assumes "slice_to_string sl = Inr s"
    and "tr log (fetch_request self s) = Inr r" and "is_success r"
    and "decompress2 eng (content r) = Inl e"
    and "isinstance e [''ValueError'', ''RuntimeError'']"
    and "ndarray_from_cframe eng (content r) = Inr arr"
  shows "fst (C2Array_getitem tr eng sl self log) =
           map_sum id Array
             (NDArray_getitem eng arr (if ndim arr = 1 then PySlice None None None
                                       else PyTuple []))"
  using assms(2-)
  by (simp add: getitem_encoded [OF assms(1)] fetch_data_try_def split: sum.splits)

theorem fallback_materialises_whole_container_witness:
  "fst (C2Array_getitem (stub_server 200 ''cframe'' (Inr JNull)) stub_engine
          (PySlice (Some 2) (Some 5) None) stub_handle []) = Inr (Array stub_array)"
proof -
  let ?r = "\<lparr>status_code = 200, content = ''cframe'', json_result = Inr JNull\<rparr>"
  have s: "slice_to_string (PySlice (Some 2) (Some 5) None) = Inr ''2:5''"
    by (simp add: slice_to_string_def as_tuple_def bound_or_empty_def str_int_def
        str_nat.simps digit_char_def)
  have t: "stub_server 200 ''cframe'' (Inr JNull) [] (fetch_request stub_handle ''2:5'') = Inr ?r"
    by (simp add: stub_server_def)
  have ok: "is_success ?r" by (simp add: is_success_def)
  have d: "decompress2 stub_engine (content ?r) = Inl (ValueError ''not a compressed chunk'')"
    by (simp add: stub_engine_def)
  have i: "isinstance (ValueError ''not a compressed chunk'') [''ValueError'', ''RuntimeError'']"
    by (simp add: isinstance_def ValueError_def)
  have n: "ndarray_from_cframe stub_engine (content ?r) = Inr stub_array"
    by (simp add: stub_engine_def)
  from s t ok d i n
    fallback_materialises_whole_container
      [of "PySlice (Some 2) (Some 5) None" "''2:5''" "stub_server 200 ''cframe'' (Inr JNull)"
          "[]" stub_handle ?r stub_engine "ValueError ''not a compressed chunk''" stub_array]
  show ?thesis
    by (simp add: stub_engine_def stub_getitem_def stub_array_def ndim_def)
qed

text \<open>
  Claim C1 as stated fails: the stub server answers the request for \<open>2:5\<close> with the
  container of the whole array \<open>0..9\<close>; the call returns all ten items, whereas applying
  the requested expression to the container gives the three items \<open>2, 3, 4\<close>.
\<close>

theorem fallback_applies_expression_counterexample:
  "fst (C2Array_getitem (stub_server 200 ''cframe'' (Inr JNull)) stub_engine
          (PySlice (Some 2) (Some 5) None) stub_handle []) =
     Inr (Array \<lparr>nd_shape = [10], nd_items = [0, 1, 2, 3, 4, 5, 6, 7, 8, 9]\<rparr>) \<and>
   map_sum id Array (NDArray_getitem stub_engine stub_array (PySlice (Some 2) (Some 5) None)) =
     Inr (Array \<lparr>nd_shape = [3], nd_items = [2, 3, 4]\<rparr>)"
  by (simp add: C2Array_getitem_def slice_to_string_def as_tuple_def bound_or_empty_def
      fetch_data_def xget_def truthy_def stub_handle_def stub_server_def raise_for_status_def
      is_success_def fetch_data_try_def stub_engine_def isinstance_def ValueError_def
      stub_array_def ndim_def stub_getitem_def Let_def)

text \<open>
  Claim C2. An index expression with a range term whose step is set and not equal to one
  makes \<open>slice_to_string\<close> raise \<open>IndexError\<close>, and \<open>__getitem__\<close> raises it with the
  request log unchanged: no request is issued.
\<close>

theorem nonunit_step_no_request:
  assumes "list_ex nonunit_step (as_tuple sl)"
  shows "slice_to_string sl = Inl (IndexError ''Only step=1 is supported'') \<and>
         C2Array_getitem tr eng sl self log =
           (Inl (IndexError ''Only step=1 is supported''), self, log)"
  using slice_to_string_raises [OF assms] by (simp add: C2Array_getitem_def)

theorem nonunit_step_no_request_witness:
  "list_ex nonunit_step (as_tuple (PySlice (Some 0) (Some 10) (Some 2))) \<and>
   C2Array_getitem (stub_server 200 ''cframe'' (Inr JNull)) stub_engine
       (PySlice (Some 0) (Some 10) (Some 2)) stub_handle [] =
     (Inl (IndexError ''Only step=1 is supported''), stub_handle, [])"
proof -
  have h: "list_ex nonunit_step (as_tuple (PySlice (Some 0) (Some 10) (Some 2)))"
    by (simp add: as_tuple_def nonunit_step_simps)
  from nonunit_step_no_request [OF h] h show ?thesis by simp
qed

text \<open>
  Claim C3. The expressions that select everything, \<open>None\<close>, the empty tuple and
  \<open>slice(None)\<close>, encode as the empty string.
\<close>

theorem select_everything_encodes_empty:
  "slice_to_string PyNone = Inr [] \<and>
   slice_to_string (PyTuple []) = Inr [] \<and>
   slice_to_string (PySlice None None None) = Inr []"
  by (simp add: slice_to_string_def)

text \<open>
  Claim C4, as amended. For an expression whose terms are integers and ranges with step
  \<open>None\<close> or \<open>1\<close>, the encoding succeeds and matches the wire grammar; and when the
  expression is not the lone \<open>slice(None)\<close> and no range bound is the integer \<open>0\<close>, the
  encoding is the specification's rendering: each integer as its decimal string, each
  range as \<open>start:stop\<close> with an unset bound empty, joined with \<open>", "\<close> in axis order, a
  single term taken as a one-element sequence.
\<close>

theorem encode_valid_expression:
  assumes "list_all valid_term (as_tuple sl)"
  shows "(\<exists>s. slice_to_string sl = Inr s \<and> wire_grammar s) \<and>
         (sl \<noteq> PySlice None None None \<and> list_all nonzero_bounds (as_tuple sl) \<longrightarrow>
            slice_to_string sl = Inr (spec_encode sl))"
  using valid_wire_grammar [OF assms] valid_spec_encode [OF assms] by blast

theorem encode_valid_expression_witness:
  "list_all valid_term (as_tuple ex_expr) \<and>
   slice_to_string ex_expr = Inr ''12, 3:, :-5'' \<and>
   wire_grammar ''12, 3:, :-5''"
proof -
  have v: "list_all valid_term (as_tuple ex_expr)"
    by (simp add: ex_expr_def as_tuple_def valid_term_def)
  have s: "slice_to_string ex_expr = Inr ''12, 3:, :-5''"
    by (simp add: ex_expr_def slice_to_string_def as_tuple_def bound_or_empty_def str_int_def
        str_nat.simps digit_char_def)
  from encode_valid_expression [OF v] s v show ?thesis by auto
qed

text \<open>
  Claim C4 as stated fails: the lone \<open>slice(None)\<close> encodes as the empty string, not as
  \<open>":"\<close>, and \<open>slice(0, 5)\<close> encodes as \<open>":5"\<close>, not as \<open>"0:5"\<close>.
\<close>

theorem encode_range_term_counterexample:
  "slice_to_string (PySlice None None None) \<noteq> Inr (spec_encode (PySlice None None None)) \<and>
   slice_to_string (PySlice (Some 0) (Some 5) None) \<noteq>
     Inr (spec_encode (PySlice (Some 0) (Some 5) None))"
  by (simp add: slice_to_string_def spec_encode_def spec_term_def spec_bound_def as_tuple_def
      bound_or_empty_def str_int_def str_nat.simps digit_char_def)

text \<open>
  Claim C5, as amended. \<open>slice_to_string\<close> raises, and then \<open>IndexError\<close>, exactly when a
  term of the expression is a range whose step is set and not equal to one; for every
  other expression it returns a string.
\<close>

theorem encode_fails_iff_nonunit_step:
  "(list_ex nonunit_step (as_tuple sl) \<longrightarrow>
      slice_to_string sl = Inl (IndexError ''Only step=1 is supported'')) \<and>
   (\<not> list_ex nonunit_step (as_tuple sl) \<longrightarrow> (\<exists>s. slice_to_string sl = Inr s))"
  using slice_to_string_raises [of sl] slice_to_string_raises_iff [of sl]
  by (cases "slice_to_string sl") auto

theorem encode_fails_iff_nonunit_step_witness:
  "list_ex nonunit_step (as_tuple (PyTuple [PyInt 1, PySlice None (Some 9) (Some 2)])) \<and>
   slice_to_string (PyTuple [PyInt 1, PySlice None (Some 9) (Some 2)]) =
     Inl (IndexError ''Only step=1 is supported'') \<and>
   \<not> list_ex nonunit_step (as_tuple (PyTuple [PyEllipsis, PyStr ''x''])) \<and>
   (\<exists>s. slice_to_string (PyTuple [PyEllipsis, PyStr ''x'']) = Inr s)"
  using encode_fails_iff_nonunit_step [of "PyTuple [PyInt 1, PySlice None (Some 9) (Some 2)]"]
    encode_fails_iff_nonunit_step [of "PyTuple [PyEllipsis, PyStr ''x'']"]
  by (simp add: as_tuple_def nonunit_step_simps)

text \<open>
  Claim C5 as stated fails: \<open>Ellipsis\<close> is neither an integer nor a range, and the
  expression \<open>(Ellipsis, 3)\<close> is encoded as \<open>"3"\<close> without an error.
\<close>

theorem other_term_shape_counterexample:
  "slice_to_string (PyTuple [PyEllipsis, PyInt 3]) = Inr ''3''"
  by (simp add: slice_to_string_def as_tuple_def str_int_def str_nat.simps digit_char_def)

text \<open>
  Claim C6, as amended. When the metadata request is answered with a success status and
  a body that parses as JSON, construction succeeds after that one request and caches the
  body as it is. A missing \<open>shape\<close>, \<open>chunks\<close>, \<open>blocks\<close> or \<open>dtype\<close> raises \<open>KeyError\<close>
  only when the accessor of that field is read.
\<close>

theorem construction_caches_body_unvalidated:
  assumes "tr log (info_request p u c) = Inr r" "is_success r" "json_result r = Inr j"
  shows "C2Array_init tr p u c log =
           (Inr \<lparr>path = p, sub_url = u, auth_cookie = c, meta = j\<rparr>,
            log @ [info_request p u c]) \<and>
         (\<forall>kvs. j = JObj kvs \<longrightarrow>
            (map_of kvs ''shape'' = None \<longrightarrow>
               fst (C2Array_shape \<lparr>path = p, sub_url = u, auth_cookie = c, meta = j\<rparr> log') =
                 Inl (KeyError ''shape'')) \<and>
            (map_of kvs ''chunks'' = None \<longrightarrow>
               fst (C2Array_chunks \<lparr>path = p, sub_url = u, auth_cookie = c, meta = j\<rparr> log') =
                 Inl (KeyError ''chunks'')) \<and>
            (map_of kvs ''blocks'' = None \<longrightarrow>
               fst (C2Array_blocks \<lparr>path = p, sub_url = u, auth_cookie = c, meta = j\<rparr> log') =
                 Inl (KeyError ''blocks'')) \<and>
            (map_of kvs ''dtype'' = None \<longrightarrow>
               fst (C2Array_dtype \<lparr>path = p, sub_url = u, auth_cookie = c, meta = j\<rparr> log') =
                 Inl (KeyError ''dtype'')))"
  using assms init_success [of tr log p u c r j]
  by (simp add: C2Array_shape_def C2Array_chunks_def C2Array_blocks_def C2Array_dtype_def
      meta_tuple_missing meta_getitem_def)

theorem construction_caches_body_unvalidated_witness:
  "C2Array_init (stub_server 200 [] (Inr (JObj [(''shape'', JArr [JInt 10])])))
       ''root/a.b2nd'' ''http://host/'' None [] =
     (Inr \<lparr>path = ''root/a.b2nd'', sub_url = ''http://host/'', auth_cookie = None,
           meta = JObj [(''shape'', JArr [JInt 10])]\<rparr>,
      [\<lparr>req_url = ''http://host/api/info/root/a.b2nd'', req_params = None,
        req_headers = None, req_timeout = 15\<rparr>]) \<and>
   fst (C2Array_dtype \<lparr>path = ''root/a.b2nd'', sub_url = ''http://host/'', auth_cookie = None,
           meta = JObj [(''shape'', JArr [JInt 10])]\<rparr> []) = Inl (KeyError ''dtype'')"
proof -
  let ?r = "\<lparr>status_code = 200, content = [],
             json_result = Inr (JObj [(''shape'', JArr [JInt 10])])\<rparr>"
  have a: "stub_server 200 [] (Inr (JObj [(''shape'', JArr [JInt 10])])) []
             (info_request ''root/a.b2nd'' ''http://host/'' None) = Inr ?r"
    by (simp add: stub_server_def)
  have b: "is_success ?r" by (simp add: is_success_def)
  have c: "json_result ?r = Inr (JObj [(''shape'', JArr [JInt 10])])" by simp
  from a b c
    construction_caches_body_unvalidated
      [of "stub_server 200 [] (Inr (JObj [(''shape'', JArr [JInt 10])]))" "[]"
          "''root/a.b2nd''" "''http://host/''" None ?r "JObj [(''shape'', JArr [JInt 10])]" "[]"]
  show ?thesis
    by (simp add: info_request_def)
qed

text \<open>
  Claim C6 as stated fails: for the JSON body \<open>{}\<close>, which has none of the required
  fields, construction returns a handle.
\<close>

theorem construction_missing_fields_counterexample:
  "fst (C2Array_init (stub_server 200 [] (Inr (JObj []))) ''root/a.b2nd'' ''http://host/''
          None []) =
     Inr \<lparr>path = ''root/a.b2nd'', sub_url = ''http://host/'', auth_cookie = None,
          meta = JObj []\<rparr>"
  by (simp add: C2Array_init_def get_def xget_def truthy_def stub_server_def
      raise_for_status_def is_success_def)

text \<open>
  Claim C7. When the expression encodes to the wire string \<open>s\<close>, \<open>__getitem__\<close> issues
  exactly one request, the fetch request for \<open>s\<close>; a response whose status is not a
  success makes the call fail with the \<open>HTTPStatusError\<close> of that response, and an
  exception of the transport is propagated as it is.
\<close>

theorem getitem_issues_one_fetch_request:
  assumes "slice_to_string sl = Inr s"
  shows "snd (snd (C2Array_getitem tr eng sl self log)) = log @ [fetch_request self s] \<and>
         (\<forall>r. tr log (fetch_request self s) = Inr r \<and> \<not> is_success r \<longrightarrow>
              fst (C2Array_getitem tr eng sl self log) = Inl (HTTPStatusError r)) \<and>
         (\<forall>e. tr log (fetch_request self s) = Inl e \<longrightarrow>
              fst (C2Array_getitem tr eng sl self log) = Inl e)"
  by (simp add: getitem_encoded [OF assms])

theorem getitem_issues_one_fetch_request_witness:
  "slice_to_string (PySlice (Some 10) (Some 30) None) = Inr ''10:30'' \<and>
   snd (snd (C2Array_getitem (stub_server 404 [] (Inr JNull)) stub_engine
               (PySlice (Some 10) (Some 30) None) stub_handle [])) =
     [\<lparr>req_url = ''http://host/api/fetch/root/a.b2nd'',
       req_params = Some [(''slice_'', ''10:30'')],
       req_headers = Some [(''Cookie'', ''k=v'')],
       req_timeout = 15\<rparr>] \<and>
   fst (C2Array_getitem (stub_server 404 [] (Inr JNull)) stub_engine
          (PySlice (Some 10) (Some 30) None) stub_handle []) =
     Inl (HTTPStatusError \<lparr>status_code = 404, content = [], json_result = Inr JNull\<rparr>)"
proof -
  have s: "slice_to_string (PySlice (Some 10) (Some 30) None) = Inr ''10:30''"
    by (simp add: slice_to_string_def as_tuple_def bound_or_empty_def str_int_def
        str_nat.simps digit_char_def)
  from getitem_issues_one_fetch_request [OF s, of "stub_server 404 [] (Inr JNull)" stub_engine
      stub_handle "[]"] s
  show ?thesis
    by (simp add: fetch_request_def stub_handle_def stub_server_def is_success_def)
qed

text \<open>
  Claim C8, as amended. When the payload is not a compressed chunk (\<open>decompress2\<close> raises
  \<open>ValueError\<close> or \<open>RuntimeError\<close>) and \<open>ndarray_from_cframe\<close> raises too, the call fails
  with the exception of \<open>ndarray_from_cframe\<close>, propagated as it is; the handle is
  unchanged and the one request of the call is logged.
\<close>

theorem decode_failure_propagates:
  assumes "slice_to_string sl = Inr s"
    and "tr log (fetch_request self s) = Inr r" and "is_success r"
    and "decompress2 eng (content r) = Inl e"
    and "isinstance e [''ValueError'', ''RuntimeError'']"
    and "ndarray_from_cframe eng (content r) = Inl e'"
  shows "C2Array_getitem tr eng sl self log = (Inl e', self, log @ [fetch_request self s])"
  using assms(2-)
  by (simp add: getitem_encoded [OF assms(1)] fetch_data_try_def)

theorem decode_failure_propagates_witness:
  "C2Array_getitem (stub_server 200 ''junk'' (Inr JNull)) stub_engine
       (PyInt 5) stub_handle [] =
     (Inl (RuntimeError ''not a cframe''), stub_handle, [fetch_request stub_handle ''5''])"
proof -
  let ?r = "\<lparr>status_code = 200, content = ''junk'', json_result = Inr JNull\<rparr>"
  have s: "slice_to_string (PyInt 5) = Inr ''5''"
    by (simp add: slice_to_string_def as_tuple_def str_int_def str_nat.simps digit_char_def)
  have t: "stub_server 200 ''junk'' (Inr JNull) [] (fetch_request stub_handle ''5'') = Inr ?r"
    by (simp add: stub_server_def)
  have ok: "is_success ?r" by (simp add: is_success_def)
  have d: "decompress2 stub_engine (content ?r) = Inl (ValueError ''not a compressed chunk'')"
    by (simp add: stub_engine_def)
  have i: "isinstance (ValueError ''not a compressed chunk'') [''ValueError'', ''RuntimeError'']"
    by (simp add: isinstance_def ValueError_def)
  have n: "ndarray_from_cframe stub_engine (content ?r) = Inl (RuntimeError ''not a cframe'')"
    by (simp add: stub_engine_def)
  from s t ok d i n
    decode_failure_propagates
      [of "PyInt 5" "''5''" "stub_server 200 ''junk'' (Inr JNull)" "[]" stub_handle ?r
          stub_engine "ValueError ''not a compressed chunk''" "RuntimeError ''not a cframe''"]
  show ?thesis by simp
qed

text \<open>
  Claim C8 as stated fails: on a payload that is neither a chunk nor a container the call
  raises the \<open>RuntimeError\<close> of the engine, which is not a \<open>DecodeError\<close>.
\<close>

theorem decode_error_counterexample:
  "fst (C2Array_getitem (stub_server 200 ''junk'' (Inr JNull)) stub_engine
          (PyInt 5) stub_handle []) =
     Inl (Exc [''RuntimeError'', ''Exception'', ''BaseException''] ''not a cframe'') \<and>
   \<not> isinstance (Exc [''RuntimeError'', ''Exception'', ''BaseException''] ''not a cframe'')
        [''DecodeError'']"
  by (simp add: C2Array_getitem_def slice_to_string_def as_tuple_def str_int_def str_nat.simps
      digit_char_def fetch_data_def xget_def truthy_def stub_handle_def stub_server_def
      raise_for_status_def is_success_def fetch_data_try_def stub_engine_def isinstance_def
      ValueError_def RuntimeError_def Let_def)

text \<open>
  Claim C9. \<open>__getitem__\<close> returns the handle as it received it, whether it succeeds or
  fails, so a later call behaves as on the original handle; the accessors \<open>shape\<close>,
  \<open>chunks\<close>, \<open>blocks\<close>, \<open>dtype\<close> and \<open>ext_shape\<close> change neither the handle nor the request
  log.
\<close>

theorem handle_never_modified:
  "fst (snd (C2Array_getitem tr eng sl self log)) = self \<and>
   C2Array_getitem tr eng sl' (fst (snd (C2Array_getitem tr eng sl self log))) log' =
     C2Array_getitem tr eng sl' self log' \<and>
   snd (C2Array_shape self log) = (self, log) \<and>
   snd (C2Array_chunks self log) = (self, log) \<and>
   snd (C2Array_blocks self log) = (self, log) \<and>
   snd (C2Array_dtype self log) = (self, log) \<and>
   snd (C2Array_ext_shape self log) = (self, log)"
  by (simp add: getitem_handle C2Array_shape_def C2Array_chunks_def C2Array_blocks_def
      C2Array_dtype_def C2Array_ext_shape_def meta_tuple_def)

text \<open>
  Claim C10. A start bound equal to \<open>0\<close> is rendered as the empty string, so
  \<open>slice(0, n)\<close> and \<open>slice(None, n)\<close> have the same encoding, alone or as a term of a
  tuple; a stop bound equal to \<open>0\<close> is rendered as the empty string as well, so
  \<open>slice(m, 0)\<close> is encoded as the rendering of \<open>m\<close> followed by a colon.
\<close>

theorem zero_bound_renders_empty:
  "slice_to_string (PySlice (Some 0) (Some n) step) = slice_to_string (PySlice None (Some n) step) \<and>
   slice_to_string (PyTuple (before @ PySlice (Some 0) stop step # after)) =
     slice_to_string (PyTuple (before @ PySlice None stop step # after)) \<and>
   slice_to_string (PySlice (Some m) (Some 0) None) =
     Inr ((if m = 0 then [] else str_int m) @ '':'') \<and>
   slice_to_string (PyTuple (before @ PySlice start (Some 0) step # after)) =
     slice_to_string (PyTuple (before @ PySlice start None step # after))"
  by (simp add: slice_to_string_def as_tuple_def slice_parts_loop_eq nonunit_step_simps
      rendered_simps bound_or_empty_def)

theorem zero_bound_renders_empty_witness:
  "slice_to_string (PySlice (Some 0) (Some 7) None) = Inr '':7'' \<and>
   slice_to_string (PySlice None (Some 7) None) = Inr '':7'' \<and>
   slice_to_string (PySlice (Some 3) (Some 0) None) = Inr ''3:''"
  using zero_bound_renders_empty [of 7 None "[]" None "[]" 3 None]
  by (simp add: slice_to_string_def as_tuple_def bound_or_empty_def str_int_def
      str_nat.simps digit_char_def)

end
